theory Spec2Isabelle
  imports Complex_Main
begin

section \<open>JavaScript values\<close>

text \<open>
  A JavaScript number is either \<open>NaN\<close> or a numeric value. A double is held as the real
  it stands for (the infinities are left out, \<open>-0\<close> and \<open>0\<close> coincide), which keeps
  every comparison and every truthiness test of the source as it is. Arithmetic on
  doubles rounds; \<open>round_double\<close> below is that rounding.
\<close>

datatype jsnum = NaN | Num real

text \<open>
  What \<open>JSON.parse\<close> and a request body can hold, plus \<open>undefined\<close> for a property that
  is not there. An object keeps its members in source order.
\<close>

datatype json =
    JUndefined
  | JNull
  | JBool bool
  | JNum jsnum
  | JStr string
  | JArr "json list"
  | JObj "(string \<times> json) list"

datatype error = TypeError | SyntaxError

text \<open>Truthiness, as \<open>!x\<close> and \<open>x || y\<close> test it.\<close>

fun num_truthy :: "jsnum \<Rightarrow> bool" where
  "num_truthy NaN = False"
| "num_truthy (Num r) = (r \<noteq> 0)"

fun truthy :: "json \<Rightarrow> bool" where
  "truthy JUndefined = False"
| "truthy JNull = False"
| "truthy (JBool b) = b"
| "truthy (JNum n) = num_truthy n"
| "truthy (JStr s) = (s \<noteq> [])"
| "truthy (JArr xs) = True"
| "truthy (JObj kvs) = True"

text \<open>
  Property access \<open>v.k\<close> for the keys the program reads (\<open>flag\<close>, \<open>direction\<close>,
  \<open>symbol\<close>, \<open>mark_price\<close>, \<open>close\<close>, \<open>spot_price\<close>, \<open>timestamp\<close>): it throws a
  TypeError on \<open>undefined\<close> and \<open>null\<close>, reads the member of an object (the last one
  when a key is repeated, as \<open>JSON.parse\<close> keeps it), and is \<open>undefined\<close> on every other
  value.
\<close>

fun get_prop :: "json \<Rightarrow> string \<Rightarrow> error + json" where
  "get_prop JUndefined k = Inl TypeError"
| "get_prop JNull k = Inl TypeError"
| "get_prop (JObj kvs) k =
     Inr (case map_of (rev kvs) k of None \<Rightarrow> JUndefined | Some v \<Rightarrow> v)"
| "get_prop v k = Inr JUndefined"

text \<open>
  \<open>Number(v)\<close>. The conversion of the primitives is written out; the conversion of
  strings, arrays and objects (the string grammar of the language, \<open>toString\<close> on
  compound values, which may throw) is the parameter \<open>N\<close>.
\<close>

fun ToNumber :: "(json \<Rightarrow> error + jsnum) \<Rightarrow> json \<Rightarrow> error + jsnum" where
  "ToNumber N JUndefined = Inr NaN"
| "ToNumber N JNull = Inr (Num 0)"
| "ToNumber N (JBool b) = Inr (Num (if b then 1 else 0))"
| "ToNumber N (JNum n) = Inr n"
| "ToNumber N v = N v"

definition bindE :: "error + 'a \<Rightarrow> ('a \<Rightarrow> error + 'b) \<Rightarrow> error + 'b" where
  "bindE m f = (case m of Inl e \<Rightarrow> Inl e | Inr v \<Rightarrow> f v)"

section \<open>The Delta feed message handler (deltaFeed.js)\<close>

record tick =
  symbol :: json
  price :: jsnum
  time :: json
  source :: string

text \<open>
  What one run of the \<open>message\<close> callback does: it returns early (\<open>Ignore\<close>), it calls
  \<open>onTick\<close> with a tick (\<open>Emit\<close>), or an exception reaches the \<open>catch\<close> and is logged
  (\<open>Log\<close>).
\<close>

datatype feed_action = Ignore | Emit tick | Log error

text \<open>
  \<open>Number(msg.mark_price) || Number(msg.close) || Number(msg.spot_price)\<close>, evaluated
  left to right with short circuit.
\<close>

definition feed_price :: "(json \<Rightarrow> error + jsnum) \<Rightarrow> json \<Rightarrow> error + jsnum" where
  "feed_price N msg =
     bindE (get_prop msg ''mark_price'') (\<lambda>mp.
     bindE (ToNumber N mp) (\<lambda>n1.
       if num_truthy n1 then Inr n1
       else
         bindE (get_prop msg ''close'') (\<lambda>cl.
         bindE (ToNumber N cl) (\<lambda>n2.
           if num_truthy n2 then Inr n2
           else
             bindE (get_prop msg ''spot_price'') (\<lambda>sp. ToNumber N sp)))))"

text \<open>
  The body of the \<open>try\<close> block after \<open>JSON.parse\<close>; \<open>now\<close> is the reading of
  \<open>Date.now()\<close>. \<open>Inl\<close> is an exception thrown inside the block.
\<close>

definition message_body ::
  "(json \<Rightarrow> error + jsnum) \<Rightarrow> jsnum \<Rightarrow> json \<Rightarrow> error + feed_action" where
  "message_body N now msg =
     bindE (get_prop msg ''symbol'') (\<lambda>sy.
       if \<not> truthy sy then Inr Ignore
       else
         bindE (get_prop msg ''mark_price'') (\<lambda>mp.
         bindE (get_prop msg ''close'') (\<lambda>cl.
           if \<not> truthy mp \<and> \<not> truthy cl then Inr Ignore
           else
             bindE (feed_price N msg) (\<lambda>p.
               if \<not> num_truthy p then Inr Ignore
               else
                 bindE (get_prop msg ''timestamp'') (\<lambda>ts.
                   Inr (Emit \<lparr> symbol = sy, price = p,
                               time = (if truthy ts then ts else JNum now),
                               source = ''delta'' \<rparr>))))))"

text \<open>
  The whole callback: \<open>None\<close> is a payload that \<open>JSON.parse\<close> rejects. Every exception
  ends in the \<open>catch\<close>, which logs it.
\<close>

definition on_message ::
  "(json \<Rightarrow> error + jsnum) \<Rightarrow> jsnum \<Rightarrow> json option \<Rightarrow> feed_action" where
  "on_message N now raw =
     (case raw of
        None \<Rightarrow> Log SyntaxError
      | Some msg \<Rightarrow>
          (case message_body N now msg of Inl e \<Rightarrow> Log e | Inr a \<Rightarrow> a))"

section \<open>The relay state (index.ts)\<close>

text \<open>
  The environment the module reads once: whether \<open>process.env.NODE_ENV\<close> is
  \<open>"test"\<close>, and \<open>INITIAL_MODE\<close>, the lower-cased \<open>FEED_MODE\<close> (\<open>"api"\<close> when unset).
\<close>

record config =
  is_test :: bool
  INITIAL_MODE :: string

text \<open>The object given to \<open>JSON.stringify\<close> in \<open>broadcastTick\<close>.\<close>

record tick_event =
  ev_type :: string
  ev_symbol :: json
  ev_price :: jsnum
  ev_time :: json
  ev_source :: string
  ev_mode :: string

datatype ws_message =
    TickMsg tick_event
  | InfoMsg string string

record ws_client =
  cid :: nat
  readyState :: nat

text \<open>
  The module-level variables \<open>flag\<close>, \<open>manualDirection\<close>, \<open>currentPrice\<close>,
  \<open>manualTimer\<close> and \<open>deltaWs\<close>, and the part of the runtime they refer to. A handle
  is a number: \<open>intervals\<close> are the interval timers that are scheduled, \<open>feeds\<close> the
  Delta sockets that were opened and not closed, \<open>fresh\<close> the next unused handle.
  \<open>clients\<close> is \<open>wss.clients\<close> and \<open>sent\<close> the log of every \<open>send\<close> to a client,
  oldest first.
\<close>

record state =
  flag :: nat
  manualDirection :: string
  currentPrice :: "jsnum option"
  manualTimer :: "nat option"
  deltaWs :: "nat option"
  intervals :: "nat list"
  feeds :: "nat list"
  fresh :: nat
  clients :: "ws_client list"
  sent :: "(nat \<times> ws_message) list"

definition initial :: "config \<Rightarrow> state" where
  "initial cfg =
     \<lparr> flag = (if INITIAL_MODE cfg = ''manual'' then 0 else 1),
       manualDirection = ''none'',
       currentPrice = None,
       manualTimer = None,
       deltaWs = None,
       intervals = [],
       feeds = [],
       fresh = 0,
       clients = [],
       sent = [] \<rparr>"

subsection \<open>Arithmetic on the price\<close>

text \<open>
  A finite double is \<open>m * 2 ^ e\<close> with an integer \<open>m\<close> of magnitude below \<open>2 ^ 53\<close> and
  \<open>-1074 \<le> e \<le> 971\<close>. The sum of two doubles is the exact sum rounded to the nearest
  double, ties to the even \<open>m\<close>. \<open>normalise\<close> scales a magnitude by powers of two into
  \<open>[2 ^ 52, 2 ^ 53)\<close>, stopping at the smallest exponent; \<open>round_half_even\<close> rounds the
  scaled magnitude to an integer; \<open>pow2\<close> scales back. A magnitude of \<open>2 ^ 1024\<close> or
  more, where the source gets \<open>Infinity\<close>, is outside the model; a price plus or minus
  10 does not get there.
\<close>

definition round_half_even :: "real \<Rightarrow> int" where
  "round_half_even q =
     (let f = \<lfloor>q\<rfloor>; r = q - of_int f
      in if r < 1 / 2 then f
         else if 1 / 2 < r then f + 1
         else if even f then f else f + 1)"

fun scale_down :: "nat \<Rightarrow> real \<Rightarrow> int \<Rightarrow> real \<times> int" where
  "scale_down 0 q e = (q, e)"
| "scale_down (Suc n) q e =
     (if 2 ^ 52 \<le> q \<or> e \<le> - 1074 then (q, e) else scale_down n (2 * q) (e - 1))"

fun scale_up :: "nat \<Rightarrow> real \<Rightarrow> int \<Rightarrow> real \<times> int" where
  "scale_up 0 q e = (q, e)"
| "scale_up (Suc n) q e = (if q < 2 ^ 53 then (q, e) else scale_up n (q / 2) (e + 1))"

definition normalise :: "real \<Rightarrow> real \<times> int" where
  "normalise a = (if a < 2 ^ 53 then scale_down 1074 a 0 else scale_up 971 a 0)"

definition pow2 :: "int \<Rightarrow> real" where
  "pow2 e = (if 0 \<le> e then 2 ^ nat e else 1 / 2 ^ nat (- e))"

definition round_magnitude :: "real \<Rightarrow> real" where
  "round_magnitude a =
     (case normalise a of (q, e) \<Rightarrow> of_int (round_half_even q) * pow2 e)"

definition round_double :: "real \<Rightarrow> real" where
  "round_double x = (if x < 0 then - round_magnitude (- x) else round_magnitude x)"

text \<open>
  \<open>currentPrice += step\<close> and \<open>currentPrice -= step\<close> on a \<open>number | null\<close>: \<open>null\<close>
  converts to 0, \<open>NaN\<close> stays \<open>NaN\<close>, and the result of two numbers is rounded.
\<close>

fun nullable_num :: "jsnum option \<Rightarrow> jsnum" where
  "nullable_num None = Num 0"
| "nullable_num (Some n) = n"

fun num_add :: "jsnum \<Rightarrow> jsnum \<Rightarrow> jsnum" where
  "num_add (Num a) (Num b) = Num (round_double (a + b))"
| "num_add a b = NaN"

fun num_sub :: "jsnum \<Rightarrow> jsnum \<Rightarrow> jsnum" where
  "num_sub (Num a) (Num b) = Num (round_double (a - b))"
| "num_sub a b = NaN"

subsection \<open>Starting and stopping the producers\<close>

definition clearInterval :: "nat \<Rightarrow> state \<Rightarrow> state" where
  "clearInterval h s = s\<lparr> intervals := removeAll h (intervals s) \<rparr>"

definition stopManualLoop :: "state \<Rightarrow> state" where
  "stopManualLoop s =
     (case manualTimer s of
        None \<Rightarrow> s
      | Some h \<Rightarrow> (clearInterval h s)\<lparr> manualTimer := None \<rparr>)"

text \<open>
  \<open>startDeltaFeed\<close> opens a socket and returns it. \<open>close()\<close> takes the socket out of
  the open ones; the \<open>catch\<close> around it only logs, so \<open>deltaWs = null\<close> follows on
  both paths.
\<close>

definition startDeltaFeed :: "state \<Rightarrow> nat \<times> state" where
  "startDeltaFeed s = (fresh s, s\<lparr> feeds := feeds s @ [fresh s], fresh := Suc (fresh s) \<rparr>)"

definition startDeltaMode :: "config \<Rightarrow> state \<Rightarrow> state" where
  "startDeltaMode cfg s =
     (let s1 = stopManualLoop s in
      if deltaWs s1 = None \<and> \<not> is_test cfg
      then (case startDeltaFeed s1 of (w, s2) \<Rightarrow> s2\<lparr> deltaWs := Some w \<rparr>)
      else s1)"

definition stopDeltaMode :: "state \<Rightarrow> state" where
  "stopDeltaMode s =
     (case deltaWs s of
        None \<Rightarrow> s
      | Some w \<Rightarrow> s\<lparr> feeds := removeAll w (feeds s), deltaWs := None \<rparr>)"

text \<open>The callback given to \<open>setInterval\<close>: one firing of the manual timer.\<close>

definition manualTick :: "state \<Rightarrow> state" where
  "manualTick s =
     (if manualDirection s = ''up''
      then s\<lparr> currentPrice := Some (num_add (nullable_num (currentPrice s)) (Num 10)) \<rparr>
      else if manualDirection s = ''down''
      then s\<lparr> currentPrice := Some (num_sub (nullable_num (currentPrice s)) (Num 10)) \<rparr>
      else s)"

text \<open>The three statements of \<open>startManualLoop\<close> after \<open>stopDeltaMode()\<close>.\<close>

definition defaultPrice :: "state \<Rightarrow> state" where
  "defaultPrice s = (if currentPrice s = None then s\<lparr> currentPrice := Some (Num 100) \<rparr> else s)"

definition clearOldTimer :: "state \<Rightarrow> state" where
  "clearOldTimer s = (case manualTimer s of None \<Rightarrow> s | Some h \<Rightarrow> clearInterval h s)"

definition setInterval :: "state \<Rightarrow> state" where
  "setInterval s =
     s\<lparr> intervals := intervals s @ [fresh s],
        manualTimer := Some (fresh s),
        fresh := Suc (fresh s) \<rparr>"

definition startManualLoop :: "state \<Rightarrow> state" where
  "startManualLoop s = setInterval (clearOldTimer (defaultPrice (stopDeltaMode s)))"

subsection \<open>Ticks from Delta and the broadcast\<close>

definition mode_name :: "state \<Rightarrow> string" where
  "mode_name s = (if flag s = 1 then ''API'' else ''MANUAL'')"

definition tick_data :: "tick \<Rightarrow> state \<Rightarrow> tick_event" where
  "tick_data t s =
     \<lparr> ev_type = ''tick'',
       ev_symbol = symbol t,
       ev_price = price t,
       ev_time = time t,
       ev_source = source t,
       ev_mode = mode_name s \<rparr>"

definition broadcastTick :: "tick \<Rightarrow> state \<Rightarrow> state" where
  "broadcastTick t s =
     s\<lparr> sent := sent s @
          map (\<lambda>c. (cid c, TickMsg (tick_data t s)))
              (filter (\<lambda>c. readyState c = 1) (clients s)) \<rparr>"

definition handleDeltaTick :: "tick \<Rightarrow> state \<Rightarrow> state" where
  "handleDeltaTick t s =
     broadcastTick t (if flag s = 1 then s\<lparr> currentPrice := Some (price t) \<rparr> else s)"

text \<open>
  A client connects: the server adds it to \<open>wss.clients\<close> with an open channel and the
  \<open>connection\<close> handler sends the info message.
\<close>

definition on_connection :: "state \<Rightarrow> state" where
  "on_connection s =
     s\<lparr> clients := clients s @ [\<lparr> cid = fresh s, readyState = 1 \<rparr>],
        sent := sent s @ [(fresh s, InfoMsg ''Connected to tick stream'' (mode_name s))],
        fresh := Suc (fresh s) \<rparr>"

subsection \<open>The control routes\<close>

datatype response =
    ModeOk nat string
  | DirectionOk string
  | BadRequest string
  | InternalError

fun status :: "response \<Rightarrow> nat" where
  "status (ModeOk f d) = 200"
| "status (DirectionOk d) = 200"
| "status (BadRequest m) = 400"
| "status InternalError = 500"

text \<open>
  \<open>POST /mode\<close> on the request body. \<open>newFlag !== 0 && newFlag !== 1\<close> is strict
  equality with the two numbers; a TypeError from \<open>req.body.flag\<close> ends in the \<open>catch\<close>.
\<close>

definition switch_mode :: "config \<Rightarrow> state \<Rightarrow> state" where
  "switch_mode cfg s =
     (if flag s = 1
      then startDeltaMode cfg (stopManualLoop (s\<lparr> manualDirection := ''none'' \<rparr>))
      else startManualLoop (s\<lparr> manualDirection := ''none'' \<rparr>))"

definition post_mode :: "config \<Rightarrow> json \<Rightarrow> state \<Rightarrow> response \<times> state" where
  "post_mode cfg body s =
     (case get_prop body ''flag'' of
        Inl e \<Rightarrow> (InternalError, s)
      | Inr newFlag \<Rightarrow>
          if newFlag \<noteq> JNum (Num 0) \<and> newFlag \<noteq> JNum (Num 1)
          then (BadRequest ''flag must be 0 or 1'', s)
          else
            (let s' = switch_mode cfg (s\<lparr> flag := (if newFlag = JNum (Num 1) then 1 else 0) \<rparr>)
             in (ModeOk (flag s') (manualDirection s'), s')))"

text \<open>\<open>POST /manual-direction\<close>: \<open>["up", "down", "none"].includes(direction)\<close>.\<close>

definition direction_error :: string where
  "direction_error = ''direction must be 'up', 'down' or 'none'' @ [CHR 0x27]"

definition post_manual_direction :: "json \<Rightarrow> state \<Rightarrow> response \<times> state" where
  "post_manual_direction body s =
     (case get_prop body ''direction'' of
        Inl e \<Rightarrow> (InternalError, s)
      | Inr direction \<Rightarrow>
          (case direction of
             JStr d \<Rightarrow>
               if d \<in> set [''up'', ''down'', ''none'']
               then (DirectionOk d, s\<lparr> manualDirection := d \<rparr>)
               else (BadRequest direction_error, s)
           | _ \<Rightarrow> (BadRequest direction_error, s)))"

text \<open>The \<open>listen\<close> callback of \<open>startServer\<close>.\<close>

definition listening :: "config \<Rightarrow> state \<Rightarrow> state" where
  "listening cfg s =
     (if \<not> is_test cfg
      then (if flag s = 1 then startDeltaMode cfg s else startManualLoop s)
      else s)"

subsection \<open>The event loop\<close>

text \<open>
  Everything runs on one thread, one callback at a time. An event is one callback:
  the server starts listening, a control request arrives, an interval fires, the
  Delta socket delivers a payload (also one that was in flight when the socket was
  closed), a client connects or goes away. An interval that was cleared does not fire.
\<close>

datatype event =
    Listening
  | PostMode json
  | PostManualDirection json
  | TimerFire nat
  | DeltaMessage "json option" jsnum
  | WsConnection
  | WsClosed nat

definition step :: "(json \<Rightarrow> error + jsnum) \<Rightarrow> config \<Rightarrow> event \<Rightarrow> state \<Rightarrow> state" where
  "step N cfg e s =
     (case e of
        Listening \<Rightarrow> listening cfg s
      | PostMode body \<Rightarrow> snd (post_mode cfg body s)
      | PostManualDirection body \<Rightarrow> snd (post_manual_direction body s)
      | TimerFire h \<Rightarrow> (if h \<in> set (intervals s) then manualTick s else s)
      | DeltaMessage raw now \<Rightarrow>
          (case on_message N now raw of
             Emit t \<Rightarrow> handleDeltaTick t s
           | _ \<Rightarrow> s)
      | WsConnection \<Rightarrow> on_connection s
      | WsClosed c \<Rightarrow> s\<lparr> clients := filter (\<lambda>x. cid x \<noteq> c) (clients s) \<rparr>)"

definition run :: "(json \<Rightarrow> error + jsnum) \<Rightarrow> config \<Rightarrow> event list \<Rightarrow> state \<Rightarrow> state" where
  "run N cfg evs s = foldl (\<lambda>s e. step N cfg e s) s evs"

section \<open>Properties of states\<close>

text \<open>
  At most one producer: not both handles set, and at most one scheduled interval or
  open Delta socket in the runtime.
\<close>

definition at_most_one :: "state \<Rightarrow> bool" where
  "at_most_one s =
     ((manualTimer s = None \<or> deltaWs s = None) \<and>
      length (intervals s) + length (feeds s) \<le> 1)"

text \<open>
  What every callback keeps: the flag is 0 or 1, each handle is the one resource of its
  kind in the runtime, a running timer goes with flag 0 and a defined price, an open
  Delta socket goes with flag 1.
\<close>

definition consistent :: "state \<Rightarrow> bool" where
  "consistent s =
     ((flag s = 0 \<or> flag s = 1) \<and>
      intervals s = (case manualTimer s of None \<Rightarrow> [] | Some h \<Rightarrow> [h]) \<and>
      feeds s = (case deltaWs s of None \<Rightarrow> [] | Some w \<Rightarrow> [w]) \<and>
      (case manualTimer s of
         None \<Rightarrow> True
       | Some h \<Rightarrow> h < fresh s \<and> flag s = 0 \<and> currentPrice s \<noteq> None) \<and>
      (case deltaWs s of None \<Rightarrow> True | Some w \<Rightarrow> w < fresh s \<and> flag s = 1))"

text \<open>
  The states \<open>POST /mode\<close> passes through after \<open>flag = newFlag\<close>, one per statement
  of the branch taken, in execution order; the last one is the state it returns in.
\<close>

definition switch_trace :: "config \<Rightarrow> state \<Rightarrow> state list" where
  "switch_trace cfg s =
     (let a = s\<lparr> manualDirection := ''none'' \<rparr> in
      if flag s = 1
      then (let b = stopManualLoop a; c = stopManualLoop b
            in [s, a, b, c, startDeltaMode cfg b])
      else (let b = stopDeltaMode a; c = defaultPrice b; d = clearOldTimer c
            in [s, a, b, c, d, setInterval d]))"

section \<open>Sample inputs\<close>

text \<open>
  A conversion that agrees with \<open>Number\<close> on the two strings the examples use, and
  is \<open>NaN\<close> elsewhere.
\<close>

definition sample_Number :: "json \<Rightarrow> error + jsnum" where
  "sample_Number v =
     (if v = JStr ''0'' then Inr (Num 0)
      else if v = JStr ''50000.5'' then Inr (Num 50000.5)
      else Inr NaN)"

definition ticker :: "json \<Rightarrow> json \<Rightarrow> json" where
  "ticker sy p =
     JObj [(''symbol'', sy), (''mark_price'', p), (''timestamp'', JNum (Num 1700000000000))]"

definition delta_tick :: "jsnum \<Rightarrow> tick" where
  "delta_tick p =
     \<lparr> symbol = JStr ''BTCUSD'', price = p, time = JNum (Num 1700000000000),
       source = ''delta'' \<rparr>"

definition manual_cfg :: config where
  "manual_cfg = \<lparr> is_test = False, INITIAL_MODE = ''manual'' \<rparr>"

definition api_cfg :: config where
  "api_cfg = \<lparr> is_test = False, INITIAL_MODE = ''api'' \<rparr>"

text \<open>The environment of the repository's test: \<open>NODE_ENV=test\<close>, \<open>FEED_MODE=manual\<close>.\<close>

definition test_cfg :: config where
  "test_cfg = \<lparr> is_test = True, INITIAL_MODE = ''manual'' \<rparr>"

definition flag_body :: "real \<Rightarrow> json" where
  "flag_body f = JObj [(''flag'', JNum (Num f))]"

definition direction_body :: "string \<Rightarrow> json" where
  "direction_body d = JObj [(''direction'', JStr d)]"

text \<open>The clients \<open>broadcastTick\<close> sends to: those with \<open>readyState === 1\<close>.\<close>

definition open_clients :: "state \<Rightarrow> ws_client list" where
  "open_clients s = filter (\<lambda>c. readyState c = 1) (clients s)"

text \<open>
  Two states the program reaches: the manual loop running with one client connected and
  direction \<open>"up"\<close>; and API mode left for MANUAL with one client connected.
\<close>

definition manual_up_state :: state where
  "manual_up_state =
     run sample_Number manual_cfg
       [Listening, WsConnection, PostManualDirection (direction_body ''up'')]
       (initial manual_cfg)"

definition switched_out_state :: state where
  "switched_out_state =
     run sample_Number api_cfg [Listening, WsConnection, PostMode (flag_body 0)]
       (initial api_cfg)"

text \<open>
  A state the program reaches with a price that is not an integer: API mode takes the
  price 1.12 from a Delta message (the payload's number is the double nearest to 1.12),
  then MANUAL mode is entered and the direction set to \<open>"up"\<close>.
\<close>

definition fractional_price_state :: state where
  "fractional_price_state =
     run sample_Number api_cfg
       [Listening,
        DeltaMessage (Some (ticker (JStr ''BTCUSD'') (JNum (Num (round_double 1.12))))) (Num 7),
        PostMode (flag_body 0),
        PostManualDirection (direction_body ''up'')]
       (initial api_cfg)"

lemmas feed_defs = on_message_def message_body_def feed_price_def bindE_def
  sample_Number_def ticker_def delta_tick_def

lemmas relay_defs = run_def step_def initial_def listening_def post_mode_def
  post_manual_direction_def switch_mode_def startManualLoop_def startDeltaMode_def
  stopManualLoop_def stopDeltaMode_def startDeltaFeed_def clearInterval_def
  defaultPrice_def clearOldTimer_def setInterval_def manualTick_def handleDeltaTick_def
  broadcastTick_def tick_data_def mode_name_def on_connection_def
  manual_cfg_def api_cfg_def flag_body_def direction_body_def

section \<open>Rounding\<close>

lemma scale_down_unfold:
  "scale_down n q e =
     (if n = 0 then (q, e)
      else if 2 ^ 52 \<le> q \<or> e \<le> - 1074 then (q, e)
      else scale_down (n - 1) (2 * q) (e - 1))"
  by (cases n) simp_all

lemma scale_up_unfold:
  "scale_up n q e =
     (if n = 0 then (q, e)
      else if q < 2 ^ 53 then (q, e)
      else scale_up (n - 1) (q / 2) (e + 1))"
  by (cases n) simp_all

lemmas round_eval = round_double_def round_magnitude_def normalise_def pow2_def
  round_half_even_def scale_down_unfold scale_up_unfold Let_def

lemma round_half_even_of_int: "round_half_even (of_int z) = z"
  by (simp add: round_half_even_def)

lemma pow2_pred: "e \<le> 0 \<Longrightarrow> 2 * pow2 (e - 1) = pow2 e"
proof -
  assume "e \<le> 0"
  then have "nat (1 - e) = Suc (nat (- e))" by simp
  with \<open>e \<le> 0\<close> show ?thesis by (simp add: pow2_def)
qed

text \<open>Scaling an integer down keeps it an integer and keeps the value.\<close>

lemma scale_down_of_int:
  "scale_down k (of_int z) e = (q', e') \<Longrightarrow> e \<le> 0 \<Longrightarrow>
     \<exists>z'. q' = of_int z' \<and> of_int z' * pow2 e' = of_int z * pow2 e"
proof (induction k arbitrary: z e)
  case 0
  then show ?case by auto
next
  case (Suc k)
  show ?case
  proof (cases "2 ^ 52 \<le> (of_int z :: real) \<or> e \<le> - 1074")
    case True
    with Suc.prems show ?thesis by auto
  next
    case False
    with Suc.prems have "scale_down k (of_int (2 * z)) (e - 1) = (q', e')" by simp
    moreover have "e - 1 \<le> 0" using Suc.prems by simp
    ultimately obtain z' where "q' = of_int z'"
      and "of_int z' * pow2 e' = of_int (2 * z) * pow2 (e - 1)"
      using Suc.IH by blast
    moreover have "of_int (2 * z) * pow2 (e - 1) = of_int z * pow2 e"
      using pow2_pred [of e] Suc.prems(2) by (simp add: algebra_simps)
    ultimately show ?thesis by auto
  qed
qed

lemma round_magnitude_of_int:
  assumes "z < 2 ^ 53"
  shows "round_magnitude (of_int z) = of_int z"
proof -
  obtain q' e' where n: "scale_down 1074 (of_int z) 0 = (q', e')" by fastforce
  then obtain z' where "q' = of_int z'" and "of_int z' * pow2 e' = of_int z * pow2 0"
    using scale_down_of_int [of 1074 z 0 q' e'] by auto
  moreover have "(of_int z :: real) < 2 ^ 53"
    using assms by (metis of_int_less_iff of_int_numeral of_int_power)
  ultimately show ?thesis
    using n by (simp add: round_magnitude_def normalise_def round_half_even_of_int pow2_def)
qed

text \<open>Every integer of magnitude below \<open>2 ^ 53\<close> is a double: rounding keeps it.\<close>

lemma round_double_of_int:
  assumes "\<bar>n\<bar> < 2 ^ 53"
  shows "round_double (of_int n) = of_int n"
proof (cases "n < 0")
  case True
  then have "round_magnitude (of_int (- n)) = of_int (- n)"
    using assms round_magnitude_of_int [of "- n"] by simp
  with True show ?thesis by (simp add: round_double_def)
next
  case False
  then show ?thesis using assms round_magnitude_of_int [of n] by (simp add: round_double_def)
qed

lemma round_double_numeral [simp]:
  "numeral k < (2 :: int) ^ 53 \<Longrightarrow> round_double (numeral k) = numeral k"
  using round_double_of_int [of "numeral k"] by simp

lemma pow2_succ: "0 \<le> e \<Longrightarrow> pow2 (e + 1) = 2 * pow2 e"
  by (simp add: pow2_def nat_add_distrib)

text \<open>
  What the scaling gives on a positive magnitude below \<open>2 ^ 1024\<close>: the same value,
  written as \<open>q * 2 ^ e\<close> with \<open>q\<close> in \<open>[2 ^ 52, 2 ^ 53)\<close>, or below it at the smallest
  exponent \<open>-1074\<close>, and \<open>e\<close> within the exponent range. Rounding \<open>q\<close> to an integer is
  then rounding to the nearest double.
\<close>

lemma scale_down_spec:
  "scale_down k q e = (q', e') \<Longrightarrow> 0 < q \<Longrightarrow> q < 2 ^ 53 \<Longrightarrow> - 1074 \<le> e \<Longrightarrow> e \<le> 0 \<Longrightarrow>
     e - int k \<le> - 1074 \<Longrightarrow>
     q' * pow2 e' = q * pow2 e \<and> q' < 2 ^ 53 \<and> (2 ^ 52 \<le> q' \<or> e' = - 1074) \<and>
     - 1074 \<le> e' \<and> e' \<le> 0"
proof (induction k arbitrary: q e)
  case 0
  then show ?case by auto
next
  case (Suc k)
  show ?case
  proof (cases "2 ^ 52 \<le> q \<or> e \<le> - 1074")
    case True
    with Suc.prems show ?thesis by auto
  next
    case False
    with Suc.prems have r: "scale_down k (2 * q) (e - 1) = (q', e')" by simp
    have "q' * pow2 e' = (2 * q) * pow2 (e - 1) \<and> q' < 2 ^ 53 \<and>
        (2 ^ 52 \<le> q' \<or> e' = - 1074) \<and> - 1074 \<le> e' \<and> e' \<le> 0"
      using Suc.IH [OF r] False Suc.prems by simp
    moreover have "(2 * q) * pow2 (e - 1) = q * pow2 e"
      using pow2_pred [of e] Suc.prems by (simp add: algebra_simps)
    ultimately show ?thesis by simp
  qed
qed

lemma scale_up_spec:
  "scale_up k q e = (q', e') \<Longrightarrow> 2 ^ 52 \<le> q \<Longrightarrow> 0 \<le> e \<Longrightarrow> q < 2 ^ 53 * 2 ^ k \<Longrightarrow>
     q' * pow2 e' = q * pow2 e \<and> q' < 2 ^ 53 \<and> 2 ^ 52 \<le> q' \<and>
     0 \<le> e' \<and> e' \<le> e + int k"
proof (induction k arbitrary: q e)
  case 0
  then show ?case by auto
next
  case (Suc k)
  show ?case
  proof (cases "q < 2 ^ 53")
    case True
    with Suc.prems show ?thesis by auto
  next
    case False
    with Suc.prems have r: "scale_up k (q / 2) (e + 1) = (q', e')" by simp
    have h: "2 ^ 52 \<le> q / 2" "0 \<le> e + 1" "q / 2 < 2 ^ 53 * 2 ^ k"
      using False Suc.prems by simp_all
    note ih = Suc.IH [OF r h]
    have "q' * pow2 e' = q / 2 * pow2 (e + 1)" using ih by blast
    also have "\<dots> = q * pow2 e"
      using pow2_succ [of e] Suc.prems by simp
    finally have v: "q' * pow2 e' = q * pow2 e" .
    have "e' \<le> e + int (Suc k)" using ih by simp
    with v ih show ?thesis by blast
  qed
qed

lemma normalise_spec:
  assumes "0 < a" and "a < 2 ^ 1024" and "normalise a = (q, e)"
  shows "q * pow2 e = a \<and> q < 2 ^ 53 \<and> (2 ^ 52 \<le> q \<or> e = - 1074) \<and>
         - 1074 \<le> e \<and> e \<le> 971"
proof (cases "a < 2 ^ 53")
  case True
  then have "scale_down 1074 a 0 = (q, e)" using assms(3) by (simp add: normalise_def)
  from scale_down_spec [OF this assms(1) True] show ?thesis by (auto simp: pow2_def)
next
  case False
  then have r: "scale_up 971 a 0 = (q, e)" using assms(3) by (simp add: normalise_def)
  have "(2::real) ^ 52 \<le> 2 ^ 53" by simp
  with False have l: "2 ^ 52 \<le> a" by linarith
  have "(2::real) ^ 1024 = 2 ^ 53 * 2 ^ 971" by (simp flip: power_add)
  with assms(2) have u: "a < 2 ^ 53 * 2 ^ 971" by simp
  from scale_up_spec [OF r l _ u] show ?thesis by (auto simp: pow2_def)
qed

section \<open>The invariant of the event loop\<close>

lemma consistent_initial: "consistent (initial cfg)"
  by (simp add: consistent_def initial_def)

lemma consistent_at_most_one: "consistent s \<Longrightarrow> at_most_one s"
  by (auto simp: consistent_def at_most_one_def split: option.splits)

lemma consistent_startDeltaMode:
  "consistent s \<Longrightarrow> flag s = 1 \<Longrightarrow> consistent (startDeltaMode cfg s)"
  by (auto simp: consistent_def startDeltaMode_def stopManualLoop_def clearInterval_def
      startDeltaFeed_def Let_def split: option.splits)

lemma consistent_startManualLoop:
  "consistent s \<Longrightarrow> flag s = 0 \<Longrightarrow> consistent (startManualLoop s)"
  by (auto simp: consistent_def startManualLoop_def stopDeltaMode_def clearInterval_def
      defaultPrice_def clearOldTimer_def setInterval_def split: option.splits)

lemma consistent_flag: "consistent s \<Longrightarrow> flag s \<noteq> 1 \<Longrightarrow> flag s = 0"
  by (auto simp: consistent_def)

lemma consistent_listening: "consistent s \<Longrightarrow> consistent (listening cfg s)"
  by (simp add: listening_def consistent_startDeltaMode consistent_startManualLoop
      consistent_flag)

lemma switch_to_api:
  "consistent s \<Longrightarrow> consistent (switch_mode cfg (s\<lparr> flag := Suc 0 \<rparr>))"
  by (auto simp: consistent_def switch_mode_def startDeltaMode_def stopManualLoop_def
      clearInterval_def startDeltaFeed_def Let_def split: option.splits)

lemma switch_to_manual:
  "consistent s \<Longrightarrow> consistent (switch_mode cfg (s\<lparr> flag := 0 \<rparr>))"
  by (auto simp: consistent_def switch_mode_def startManualLoop_def stopDeltaMode_def
      clearInterval_def defaultPrice_def clearOldTimer_def setInterval_def
      split: option.splits)

lemma consistent_post_mode: "consistent s \<Longrightarrow> consistent (snd (post_mode cfg body s))"
  by (auto simp: post_mode_def Let_def switch_to_api switch_to_manual split: sum.splits)

lemma consistent_post_manual_direction:
  "consistent s \<Longrightarrow> consistent (snd (post_manual_direction body s))"
  by (auto simp: post_manual_direction_def consistent_def
      split: sum.splits json.splits option.splits)

lemma consistent_manualTick: "consistent s \<Longrightarrow> consistent (manualTick s)"
  by (auto simp: manualTick_def consistent_def split: option.splits)

lemma consistent_handleDeltaTick: "consistent s \<Longrightarrow> consistent (handleDeltaTick t s)"
  by (auto simp: handleDeltaTick_def broadcastTick_def consistent_def split: option.splits)

lemma consistent_on_connection: "consistent s \<Longrightarrow> consistent (on_connection s)"
  by (auto simp: on_connection_def consistent_def split: option.splits)

lemma consistent_step: "consistent s \<Longrightarrow> consistent (step N cfg e s)"
proof (cases e)
  case (WsClosed c)
  assume "consistent s"
  then show ?thesis using WsClosed
    by (auto simp: step_def consistent_def split: option.splits)
qed (simp_all add: step_def consistent_listening consistent_post_mode
      consistent_post_manual_direction consistent_manualTick consistent_handleDeltaTick
      consistent_on_connection split: feed_action.splits)

lemma run_snoc: "run N cfg (evs @ [e]) s = step N cfg e (run N cfg evs s)"
  by (simp add: run_def)

lemma consistent_run: "consistent s \<Longrightarrow> consistent (run N cfg evs s)"
  by (induction evs rule: rev_induct) (simp_all add: run_snoc consistent_step, simp add: run_def)

lemma last_switch_trace: "last (switch_trace cfg s) = switch_mode cfg s"
  by (simp add: switch_trace_def switch_mode_def startManualLoop_def Let_def)

lemma switch_trace_at_most_one:
  "consistent s \<Longrightarrow> list_all at_most_one (switch_trace cfg (s\<lparr> flag := f \<rparr>))"
  by (auto simp: consistent_def at_most_one_def switch_trace_def Let_def
      stopManualLoop_def stopDeltaMode_def startDeltaMode_def startDeltaFeed_def
      clearInterval_def defaultPrice_def clearOldTimer_def setInterval_def
      split: option.splits)

lemma switch_mode_direction: "manualDirection (switch_mode cfg s) = ''none''"
  by (simp add: switch_mode_def startManualLoop_def startDeltaMode_def stopManualLoop_def
      stopDeltaMode_def startDeltaFeed_def clearInterval_def defaultPrice_def
      clearOldTimer_def setInterval_def Let_def split: option.splits)

lemma get_prop_total: "get_prop msg k = Inr v \<Longrightarrow> \<exists>w. get_prop msg k' = Inr w"
  by (cases msg) auto

lemma consistent_api_no_timer: "consistent s \<Longrightarrow> flag s = 1 \<Longrightarrow> intervals s = []"
  by (auto simp: consistent_def split: option.splits)

lemma handleDeltaTick_manual_price:
  "flag s \<noteq> 1 \<Longrightarrow> currentPrice (handleDeltaTick t s) = currentPrice s"
  by (simp add: handleDeltaTick_def broadcastTick_def)

lemma sent_handleDeltaTick:
  "sent (handleDeltaTick t s) =
     sent s @ map (\<lambda>c. (cid c, TickMsg (tick_data t s))) (open_clients s)"
  by (simp add: handleDeltaTick_def broadcastTick_def tick_data_def mode_name_def
      open_clients_def)

lemma switch_api_fields:
  "flag (switch_mode cfg (s\<lparr> flag := Suc 0 \<rparr>)) = Suc 0"
  "manualTimer (switch_mode cfg (s\<lparr> flag := Suc 0 \<rparr>)) = None"
  "deltaWs (switch_mode cfg (s\<lparr> flag := Suc 0 \<rparr>)) \<noteq> None \<or> is_test cfg"
  by (simp_all add: switch_mode_def startDeltaMode_def stopManualLoop_def startDeltaFeed_def
      clearInterval_def Let_def split: option.splits)

lemma switch_api_idle:
  assumes "flag u = Suc 0" "manualTimer u = None" "manualDirection u = ''none''"
    "deltaWs u \<noteq> None \<or> is_test cfg"
  shows "switch_mode cfg (u\<lparr> flag := Suc 0 \<rparr>) = u"
  using assms
  by (cases u) (auto simp: switch_mode_def startDeltaMode_def stopManualLoop_def Let_def)

lemma switch_api_twice:
  "switch_mode cfg ((switch_mode cfg (s\<lparr> flag := Suc 0 \<rparr>))\<lparr> flag := Suc 0 \<rparr>)
     = switch_mode cfg (s\<lparr> flag := Suc 0 \<rparr>)"
  by (rule switch_api_idle)
    (simp_all only: switch_api_fields switch_mode_direction)

lemma switch_manual_fields:
  assumes "consistent s"
  shows "manualTimer (switch_mode cfg (s\<lparr> flag := 0 \<rparr>)) = Some (fresh s)"
    and "intervals (switch_mode cfg (s\<lparr> flag := 0 \<rparr>)) = [fresh s]"
    and "fresh (switch_mode cfg (s\<lparr> flag := 0 \<rparr>)) = Suc (fresh s)"
    and "deltaWs (switch_mode cfg (s\<lparr> flag := 0 \<rparr>)) = None"
    and "feeds (switch_mode cfg (s\<lparr> flag := 0 \<rparr>)) = []"
    and "currentPrice (switch_mode cfg (s\<lparr> flag := 0 \<rparr>)) \<noteq> None"
    and "flag (switch_mode cfg (s\<lparr> flag := 0 \<rparr>)) = 0"
  using assms
  by (auto simp: consistent_def switch_mode_def startManualLoop_def stopDeltaMode_def
      defaultPrice_def clearOldTimer_def clearInterval_def setInterval_def
      split: option.splits)

lemma switch_manual_running:
  assumes "flag u = 0" "manualTimer u = Some h" "intervals u = [h]" "deltaWs u = None"
    "currentPrice u \<noteq> None" "manualDirection u = ''none''"
  shows "switch_mode cfg (u\<lparr> flag := 0 \<rparr>)
     = u\<lparr> intervals := [fresh u], manualTimer := Some (fresh u), fresh := Suc (fresh u) \<rparr>"
  using assms
  by (cases u) (auto simp: switch_mode_def startManualLoop_def stopDeltaMode_def
      defaultPrice_def clearOldTimer_def clearInterval_def setInterval_def)

lemma switch_manual_twice:
  assumes "consistent s"
  shows "switch_mode cfg ((switch_mode cfg (s\<lparr> flag := 0 \<rparr>))\<lparr> flag := 0 \<rparr>)
     = (switch_mode cfg (s\<lparr> flag := 0 \<rparr>))
         \<lparr> intervals := [Suc (fresh s)], manualTimer := Some (Suc (fresh s)),
           fresh := Suc (Suc (fresh s)) \<rparr>"
  using switch_manual_running [of "switch_mode cfg (s\<lparr> flag := 0 \<rparr>)" "fresh s" cfg]
    switch_manual_fields [OF assms, of cfg] switch_mode_direction [of cfg "s\<lparr> flag := 0 \<rparr>"]
  by simp

section \<open>The claims\<close>

text \<open>
  C1. Whatever callbacks have run since the module was loaded (mode switches among
  them), at most one producer is active: the two handles \<open>deltaWs\<close> and
  \<open>manualTimer\<close> are never both set, and the runtime holds at most one scheduled
  interval or open Delta socket. The same holds in every state a mode switch passes
  through, statement by statement. A switch to MANUAL has the Delta socket closed and
  no interval scheduled before \<open>setInterval\<close> runs, and ends with the socket closed
  and exactly the new interval scheduled. A switch to API has the interval cleared
  before the feed is started, and ends with no interval and, outside the test
  environment, exactly one open Delta socket (the one already open, or a new one).
\<close>

theorem producers_mutually_exclusive:
  assumes "s = run N cfg evs (initial cfg)"
  shows
  "at_most_one s \<and>
   list_all at_most_one (switch_trace cfg (s\<lparr> flag := f \<rparr>)) \<and>
   last (switch_trace cfg (s\<lparr> flag := f \<rparr>)) = switch_mode cfg (s\<lparr> flag := f \<rparr>) \<and>
   (get_prop body ''flag'' = Inr (JNum (Num 0)) \<longrightarrow>
      snd (post_mode cfg body s) = last (switch_trace cfg (s\<lparr> flag := 0 \<rparr>)) \<and>
      deltaWs (switch_trace cfg (s\<lparr> flag := 0 \<rparr>) ! 4) = None \<and>
      feeds (switch_trace cfg (s\<lparr> flag := 0 \<rparr>) ! 4) = [] \<and>
      intervals (switch_trace cfg (s\<lparr> flag := 0 \<rparr>) ! 4) = [] \<and>
      deltaWs (snd (post_mode cfg body s)) = None \<and>
      feeds (snd (post_mode cfg body s)) = [] \<and>
      manualTimer (snd (post_mode cfg body s)) = Some (fresh s) \<and>
      intervals (snd (post_mode cfg body s)) = [fresh s]) \<and>
   (get_prop body ''flag'' = Inr (JNum (Num 1)) \<longrightarrow>
      snd (post_mode cfg body s) = last (switch_trace cfg (s\<lparr> flag := 1 \<rparr>)) \<and>
      manualTimer (switch_trace cfg (s\<lparr> flag := 1 \<rparr>) ! 3) = None \<and>
      intervals (switch_trace cfg (s\<lparr> flag := 1 \<rparr>) ! 3) = [] \<and>
      deltaWs (switch_trace cfg (s\<lparr> flag := 1 \<rparr>) ! 3) = deltaWs s \<and>
      feeds (switch_trace cfg (s\<lparr> flag := 1 \<rparr>) ! 3) = feeds s \<and>
      manualTimer (snd (post_mode cfg body s)) = None \<and>
      intervals (snd (post_mode cfg body s)) = [] \<and>
      (\<not> is_test cfg \<longrightarrow>
         deltaWs (snd (post_mode cfg body s))
           = Some (case deltaWs s of None \<Rightarrow> fresh s | Some w \<Rightarrow> w) \<and>
         feeds (snd (post_mode cfg body s))
           = [case deltaWs s of None \<Rightarrow> fresh s | Some w \<Rightarrow> w]) \<and>
      (is_test cfg \<longrightarrow>
         deltaWs (snd (post_mode cfg body s)) = deltaWs s \<and>
         feeds (snd (post_mode cfg body s)) = feeds s))"
proof -
  have c: "consistent s"
    using assms consistent_run [OF consistent_initial] by simp
  have inv: "at_most_one s"
    "list_all at_most_one (switch_trace cfg (s\<lparr> flag := f \<rparr>))"
    "last (switch_trace cfg (s\<lparr> flag := f \<rparr>)) = switch_mode cfg (s\<lparr> flag := f \<rparr>)"
    using c by (simp_all add: consistent_at_most_one switch_trace_at_most_one last_switch_trace)
  have manual:
    "snd (post_mode cfg body s) = last (switch_trace cfg (s\<lparr> flag := 0 \<rparr>))"
    "deltaWs (switch_trace cfg (s\<lparr> flag := 0 \<rparr>) ! 4) = None"
    "feeds (switch_trace cfg (s\<lparr> flag := 0 \<rparr>) ! 4) = []"
    "intervals (switch_trace cfg (s\<lparr> flag := 0 \<rparr>) ! 4) = []"
    "deltaWs (snd (post_mode cfg body s)) = None"
    "feeds (snd (post_mode cfg body s)) = []"
    "manualTimer (snd (post_mode cfg body s)) = Some (fresh s)"
    "intervals (snd (post_mode cfg body s)) = [fresh s]"
    if b: "get_prop body ''flag'' = Inr (JNum (Num 0))"
  proof -
    have p: "snd (post_mode cfg body s) = switch_mode cfg (s\<lparr> flag := 0 \<rparr>)"
      using b by (simp add: post_mode_def Let_def)
    show "snd (post_mode cfg body s) = last (switch_trace cfg (s\<lparr> flag := 0 \<rparr>))"
      using p by (simp add: last_switch_trace)
    show "deltaWs (switch_trace cfg (s\<lparr> flag := 0 \<rparr>) ! 4) = None"
      "feeds (switch_trace cfg (s\<lparr> flag := 0 \<rparr>) ! 4) = []"
      "intervals (switch_trace cfg (s\<lparr> flag := 0 \<rparr>) ! 4) = []"
      using c
      by (auto simp: consistent_def switch_trace_def Let_def stopDeltaMode_def
          defaultPrice_def clearOldTimer_def clearInterval_def split: option.splits)
    show "deltaWs (snd (post_mode cfg body s)) = None"
      "feeds (snd (post_mode cfg body s)) = []"
      "manualTimer (snd (post_mode cfg body s)) = Some (fresh s)"
      "intervals (snd (post_mode cfg body s)) = [fresh s]"
      using p switch_manual_fields [OF c, of cfg] by simp_all
  qed
  have api:
    "snd (post_mode cfg body s) = last (switch_trace cfg (s\<lparr> flag := 1 \<rparr>))"
    "manualTimer (switch_trace cfg (s\<lparr> flag := 1 \<rparr>) ! 3) = None"
    "intervals (switch_trace cfg (s\<lparr> flag := 1 \<rparr>) ! 3) = []"
    "deltaWs (switch_trace cfg (s\<lparr> flag := 1 \<rparr>) ! 3) = deltaWs s"
    "feeds (switch_trace cfg (s\<lparr> flag := 1 \<rparr>) ! 3) = feeds s"
    "manualTimer (snd (post_mode cfg body s)) = None"
    "intervals (snd (post_mode cfg body s)) = []"
    "\<not> is_test cfg \<longrightarrow>
         deltaWs (snd (post_mode cfg body s))
           = Some (case deltaWs s of None \<Rightarrow> fresh s | Some w \<Rightarrow> w) \<and>
         feeds (snd (post_mode cfg body s))
           = [case deltaWs s of None \<Rightarrow> fresh s | Some w \<Rightarrow> w]"
    "is_test cfg \<longrightarrow>
         deltaWs (snd (post_mode cfg body s)) = deltaWs s \<and>
         feeds (snd (post_mode cfg body s)) = feeds s"
    if b: "get_prop body ''flag'' = Inr (JNum (Num 1))"
  proof -
    have p: "snd (post_mode cfg body s) = switch_mode cfg (s\<lparr> flag := 1 \<rparr>)"
      using b by (simp add: post_mode_def Let_def)
    show "snd (post_mode cfg body s) = last (switch_trace cfg (s\<lparr> flag := 1 \<rparr>))"
      using p by (simp add: last_switch_trace)
    show "manualTimer (switch_trace cfg (s\<lparr> flag := 1 \<rparr>) ! 3) = None"
      "intervals (switch_trace cfg (s\<lparr> flag := 1 \<rparr>) ! 3) = []"
      "deltaWs (switch_trace cfg (s\<lparr> flag := 1 \<rparr>) ! 3) = deltaWs s"
      "feeds (switch_trace cfg (s\<lparr> flag := 1 \<rparr>) ! 3) = feeds s"
      using c
      by (auto simp: consistent_def switch_trace_def Let_def stopManualLoop_def
          clearInterval_def split: option.splits)
    show "manualTimer (snd (post_mode cfg body s)) = None"
      "intervals (snd (post_mode cfg body s)) = []"
      "\<not> is_test cfg \<longrightarrow>
         deltaWs (snd (post_mode cfg body s))
           = Some (case deltaWs s of None \<Rightarrow> fresh s | Some w \<Rightarrow> w) \<and>
         feeds (snd (post_mode cfg body s))
           = [case deltaWs s of None \<Rightarrow> fresh s | Some w \<Rightarrow> w]"
      "is_test cfg \<longrightarrow>
         deltaWs (snd (post_mode cfg body s)) = deltaWs s \<and>
         feeds (snd (post_mode cfg body s)) = feeds s"
      unfolding p using c
      by (auto simp: consistent_def switch_mode_def startDeltaMode_def stopManualLoop_def
          startDeltaFeed_def clearInterval_def Let_def split: option.splits)
  qed
  show ?thesis using inv manual api by blast
qed

theorem producers_mutually_exclusive_witness:
  "get_prop (flag_body 0) ''flag'' = Inr (JNum (Num 0)) \<and>
   deltaWs (run sample_Number api_cfg [Listening] (initial api_cfg)) = Some 0 \<and>
   feeds (run sample_Number api_cfg [Listening] (initial api_cfg)) = [0] \<and>
   deltaWs (snd (post_mode api_cfg (flag_body 0)
      (run sample_Number api_cfg [Listening] (initial api_cfg)))) = None \<and>
   feeds (snd (post_mode api_cfg (flag_body 0)
      (run sample_Number api_cfg [Listening] (initial api_cfg)))) = [] \<and>
   manualTimer (snd (post_mode api_cfg (flag_body 0)
      (run sample_Number api_cfg [Listening] (initial api_cfg)))) = Some 1 \<and>
   intervals (snd (post_mode api_cfg (flag_body 0)
      (run sample_Number api_cfg [Listening] (initial api_cfg)))) = [1] \<and>
   get_prop (flag_body 1) ''flag'' = Inr (JNum (Num 1)) \<and>
   \<not> is_test manual_cfg \<and>
   manualTimer (run sample_Number manual_cfg [Listening] (initial manual_cfg)) = Some 0 \<and>
   intervals (run sample_Number manual_cfg [Listening] (initial manual_cfg)) = [0] \<and>
   manualTimer (snd (post_mode manual_cfg (flag_body 1)
      (run sample_Number manual_cfg [Listening] (initial manual_cfg)))) = None \<and>
   intervals (snd (post_mode manual_cfg (flag_body 1)
      (run sample_Number manual_cfg [Listening] (initial manual_cfg)))) = [] \<and>
   deltaWs (snd (post_mode manual_cfg (flag_body 1)
      (run sample_Number manual_cfg [Listening] (initial manual_cfg)))) = Some 1 \<and>
   feeds (snd (post_mode manual_cfg (flag_body 1)
      (run sample_Number manual_cfg [Listening] (initial manual_cfg)))) = [1] \<and>
   is_test test_cfg \<and>
   manualTimer (snd (post_mode test_cfg (flag_body 1)
      (run sample_Number test_cfg [Listening] (initial test_cfg)))) = None \<and>
   deltaWs (snd (post_mode test_cfg (flag_body 1)
      (run sample_Number test_cfg [Listening] (initial test_cfg)))) = None \<and>
   feeds (snd (post_mode test_cfg (flag_body 1)
      (run sample_Number test_cfg [Listening] (initial test_cfg)))) = []"
proof -
  let ?t = "run sample_Number test_cfg [Listening] (initial test_cfg)"
  have t0: "is_test test_cfg" by (simp add: test_cfg_def)
  have t1: "deltaWs ?t = None" "feeds ?t = []"
    by (simp_all add: relay_defs test_cfg_def)
  let ?a = "run sample_Number api_cfg [Listening] (initial api_cfg)"
  let ?m = "run sample_Number manual_cfg [Listening] (initial manual_cfg)"
  have a0: "get_prop (flag_body 0) ''flag'' = Inr (JNum (Num 0))"
    by (simp add: flag_body_def)
  have a1: "deltaWs ?a = Some 0" "feeds ?a = [0]" "fresh ?a = 1"
    by (simp_all add: relay_defs)
  have a2: "deltaWs (snd (post_mode api_cfg (flag_body 0) ?a)) = None \<and>
      feeds (snd (post_mode api_cfg (flag_body 0) ?a)) = [] \<and>
      manualTimer (snd (post_mode api_cfg (flag_body 0) ?a)) = Some (fresh ?a) \<and>
      intervals (snd (post_mode api_cfg (flag_body 0) ?a)) = [fresh ?a]"
    using a0 producers_mutually_exclusive
      [where N = sample_Number and cfg = api_cfg and evs = "[Listening]"
         and body = "flag_body 0" and f = 0, OF refl]
    by blast
  have m0: "get_prop (flag_body 1) ''flag'' = Inr (JNum (Num 1))" "\<not> is_test manual_cfg"
    by (simp_all add: flag_body_def manual_cfg_def)
  have m1: "manualTimer ?m = Some 0" "intervals ?m = [0]" "fresh ?m = 1" "deltaWs ?m = None"
    by (simp_all add: relay_defs)
  have m2: "manualTimer (snd (post_mode manual_cfg (flag_body 1) ?m)) = None \<and>
      intervals (snd (post_mode manual_cfg (flag_body 1) ?m)) = [] \<and>
      deltaWs (snd (post_mode manual_cfg (flag_body 1) ?m))
        = Some (case deltaWs ?m of None \<Rightarrow> fresh ?m | Some w \<Rightarrow> w) \<and>
      feeds (snd (post_mode manual_cfg (flag_body 1) ?m))
        = [case deltaWs ?m of None \<Rightarrow> fresh ?m | Some w \<Rightarrow> w]"
    using m0 producers_mutually_exclusive
      [where N = sample_Number and cfg = manual_cfg and evs = "[Listening]"
         and body = "flag_body 1" and f = 1, OF refl]
    by blast
  have t2: "manualTimer (snd (post_mode test_cfg (flag_body 1) ?t)) = None \<and>
      deltaWs (snd (post_mode test_cfg (flag_body 1) ?t)) = deltaWs ?t \<and>
      feeds (snd (post_mode test_cfg (flag_body 1) ?t)) = feeds ?t"
    using m0(1) t0 producers_mutually_exclusive
      [where N = sample_Number and cfg = test_cfg and evs = "[Listening]"
         and body = "flag_body 1" and f = 1, OF refl]
    by blast
  show ?thesis using a0 a1 a2 m0 m1 m2 t0 t1 t2 by simp
qed

text \<open>
  C2. In every state the program reaches, a tick whose source does not match the mode
  leaves \<open>currentPrice\<close> as it is. With flag 0 a Delta tick (given to \<open>handleDeltaTick\<close>
  directly, or through a socket payload) does not change it: the assignment is guarded
  by \<open>flag === 1\<close>. With flag 1 no interval is scheduled, so no firing of the manual
  timer changes it: the timer callback has no guard of its own, the switch to API mode
  has cleared the timer.
\<close>

theorem source_isolation:
  assumes "s = run N cfg evs (initial cfg)"
  shows "(flag s = 0 \<longrightarrow>
            currentPrice (handleDeltaTick t s) = currentPrice s \<and>
            currentPrice (step N cfg (DeltaMessage raw now) s) = currentPrice s) \<and>
         (flag s = 1 \<longrightarrow>
            intervals s = [] \<and>
            currentPrice (step N cfg (TimerFire h) s) = currentPrice s)"
proof -
  have c: "consistent s"
    using assms consistent_run [OF consistent_initial] by simp
  show ?thesis
    using consistent_api_no_timer [OF c]
    by (auto simp: step_def handleDeltaTick_manual_price split: feed_action.splits)
qed

theorem source_isolation_witness:
  "flag (run sample_Number api_cfg [Listening, PostMode (flag_body 0)] (initial api_cfg)) = 0 \<and>
   currentPrice (run sample_Number api_cfg [Listening, PostMode (flag_body 0)] (initial api_cfg))
     = Some (Num 100) \<and>
   currentPrice (step sample_Number api_cfg
       (DeltaMessage (Some (ticker (JStr ''BTCUSD'') (JStr ''50000.5''))) (Num 7))
       (run sample_Number api_cfg [Listening, PostMode (flag_body 0)] (initial api_cfg)))
     = Some (Num 100) \<and>
   flag (run sample_Number manual_cfg
       [Listening, PostManualDirection (direction_body ''up''), PostMode (flag_body 1),
        PostManualDirection (direction_body ''up'')] (initial manual_cfg)) = 1 \<and>
   currentPrice (step sample_Number manual_cfg (TimerFire 0)
       (run sample_Number manual_cfg
       [Listening, PostManualDirection (direction_body ''up''), PostMode (flag_body 1),
        PostManualDirection (direction_body ''up'')] (initial manual_cfg)))
     = Some (Num 100)"
  using
    source_isolation [of
      "run sample_Number api_cfg [Listening, PostMode (flag_body 0)] (initial api_cfg)"
      sample_Number api_cfg "[Listening, PostMode (flag_body 0)]"
      "delta_tick (Num 50000.5)"
      "Some (ticker (JStr ''BTCUSD'') (JStr ''50000.5''))" "Num 7" 0]
    source_isolation [of
      "run sample_Number manual_cfg
       [Listening, PostManualDirection (direction_body ''up''), PostMode (flag_body 1),
        PostManualDirection (direction_body ''up'')] (initial manual_cfg)"
      sample_Number manual_cfg
      "[Listening, PostManualDirection (direction_body ''up''), PostMode (flag_body 1),
        PostManualDirection (direction_body ''up'')]"
      "delta_tick (Num 50000.5)"
      "Some (ticker (JStr ''BTCUSD'') (JStr ''50000.5''))" "Num 7" 0]
  by (simp add: relay_defs feed_defs)

text \<open>
  C3 as stated fails for the manual producer. With the manual loop running, direction
  \<open>"up"\<close> and one open client, a firing of the timer moves the price from 100 to 110
  and sends nothing.
\<close>

theorem manual_tick_not_broadcast:
  "clients manual_up_state = [\<lparr> cid = 1, readyState = 1 \<rparr>] \<and>
   intervals manual_up_state = [0] \<and>
   currentPrice manual_up_state = Some (Num 100) \<and>
   currentPrice (step sample_Number manual_cfg (TimerFire 0) manual_up_state)
     = Some (Num 110) \<and>
   sent (step sample_Number manual_cfg (TimerFire 0) manual_up_state)
     = sent manual_up_state"
  by (simp add: manual_up_state_def relay_defs)

text \<open>
  C3, amended. Every tick handed to \<open>handleDeltaTick\<close> is sent to every client whose
  channel is open, as the event \<open>{type: "tick", symbol, price, time, source, mode}\<close>
  with the mode read at that moment; the manual timer callback sends nothing.
\<close>

theorem delta_ticks_broadcast:
  "sent (handleDeltaTick t s) =
     sent s @
     map (\<lambda>c. (cid c,
            TickMsg \<lparr> ev_type = ''tick'', ev_symbol = symbol t, ev_price = price t,
                      ev_time = time t, ev_source = source t,
                      ev_mode = (if flag s = 1 then ''API'' else ''MANUAL'') \<rparr>))
         (open_clients s) \<and>
   sent (manualTick s) = sent s \<and>
   sent (step N cfg (TimerFire h) s) = sent s"
  by (simp add: sent_handleDeltaTick tick_data_def mode_name_def manualTick_def step_def)

text \<open>
  C4 as stated fails. After API mode was left for MANUAL (socket closed, handle
  \<open>null\<close>), a payload of the closed socket that still reaches the callback is sent to
  the connected client.
\<close>

theorem late_tick_is_forwarded:
  "flag switched_out_state = 0 \<and>
   deltaWs switched_out_state = None \<and>
   feeds switched_out_state = [] \<and>
   sent (step sample_Number api_cfg
          (DeltaMessage (Some (ticker (JStr ''BTCUSD'') (JStr ''50000.5''))) (Num 7))
          switched_out_state)
     = sent switched_out_state @
       [(1, TickMsg \<lparr> ev_type = ''tick'', ev_symbol = JStr ''BTCUSD'',
                      ev_price = Num 50000.5, ev_time = JNum (Num 1700000000000),
                      ev_source = ''delta'', ev_mode = ''MANUAL'' \<rparr>)]"
  by (simp add: switched_out_state_def relay_defs feed_defs)

text \<open>
  C4, amended. A Delta tick handled while the flag is not 1 changes nothing but the log
  of sent messages: flag, direction, price, handles, runtime and clients stay as they
  are, and the tick is still sent to every open client.
\<close>

theorem late_tick_only_broadcast:
  "flag s \<noteq> 1 \<Longrightarrow>
     handleDeltaTick t s =
       s\<lparr> sent := sent s @ map (\<lambda>c. (cid c, TickMsg (tick_data t s))) (open_clients s) \<rparr> \<and>
     (handleDeltaTick t s)\<lparr> sent := sent s \<rparr> = s"
  by (simp add: handleDeltaTick_def broadcastTick_def open_clients_def)

theorem late_tick_only_broadcast_witness:
  "flag switched_out_state \<noteq> 1 \<and>
   (handleDeltaTick (delta_tick (Num 50000.5)) switched_out_state)
      \<lparr> sent := sent switched_out_state \<rparr> = switched_out_state \<and>
   currentPrice (handleDeltaTick (delta_tick (Num 50000.5)) switched_out_state)
     = Some (Num 100)"
  using late_tick_only_broadcast [of switched_out_state "delta_tick (Num 50000.5)"]
  by (simp add: switched_out_state_def relay_defs)

text \<open>
  C5 as stated fails for MANUAL. Started in MANUAL mode, a \<open>POST /mode\<close> with flag 0
  leaves the timer with handle 1 running; a second one clears it and schedules a new
  interval, with handle 2.
\<close>

theorem manual_restart_counterexample:
  "manualTimer (run sample_Number manual_cfg [Listening, PostMode (flag_body 0)]
      (initial manual_cfg)) = Some 1 \<and>
   intervals (run sample_Number manual_cfg [Listening, PostMode (flag_body 0)]
      (initial manual_cfg)) = [1] \<and>
   manualTimer (run sample_Number manual_cfg
      [Listening, PostMode (flag_body 0), PostMode (flag_body 0)]
      (initial manual_cfg)) = Some 2 \<and>
   intervals (run sample_Number manual_cfg
      [Listening, PostMode (flag_body 0), PostMode (flag_body 0)]
      (initial manual_cfg)) = [2]"
  by (simp add: relay_defs)

text \<open>
  C5, amended. In every state the program reaches, two \<open>POST /mode\<close> requests with the
  same valid flag in a row end with the same flag, direction, price, Delta handle and
  open sockets as one, and with as many scheduled intervals. With flag 1 the second
  request changes nothing at all. With flag 0 the second request replaces the running
  timer by a new one, so exactly one interval is scheduled, under a new handle.
\<close>

theorem set_mode_twice:
  assumes "get_prop body ''flag'' = Inr v" and "v = JNum (Num 0) \<or> v = JNum (Num 1)"
    and "s = run N cfg evs (initial cfg)"
    and "s1 = snd (post_mode cfg body s)" and "s2 = snd (post_mode cfg body s1)"
  shows "flag s2 = flag s1 \<and> manualDirection s2 = manualDirection s1 \<and>
         currentPrice s2 = currentPrice s1 \<and> deltaWs s2 = deltaWs s1 \<and>
         feeds s2 = feeds s1 \<and> length (intervals s2) = length (intervals s1) \<and>
         (v = JNum (Num 1) \<longrightarrow> s2 = s1) \<and>
         (v = JNum (Num 0) \<longrightarrow>
            manualTimer s1 = Some (fresh s) \<and> intervals s1 = [fresh s] \<and>
            manualTimer s2 = Some (Suc (fresh s)) \<and> intervals s2 = [Suc (fresh s)])"
proof -
  have c: "consistent s"
    using assms(3) consistent_run [OF consistent_initial] by simp
  show ?thesis
  proof (cases "v = JNum (Num 1)")
    case True
    have "s1 = switch_mode cfg (s\<lparr> flag := Suc 0 \<rparr>)"
      using True assms(1,4) by (simp add: post_mode_def Let_def)
    moreover have "s2 = switch_mode cfg (s1\<lparr> flag := Suc 0 \<rparr>)"
      using True assms(1,5) by (simp add: post_mode_def Let_def)
    ultimately have "s2 = s1"
      using switch_api_twice [of cfg s] by simp
    then show ?thesis using True by simp
  next
    case False
    with assms(2) have v: "v = JNum (Num 0)" by simp
    have 1: "s1 = switch_mode cfg (s\<lparr> flag := 0 \<rparr>)"
      using v assms(1,4) by (simp add: post_mode_def Let_def)
    have 2: "s2 = switch_mode cfg (s1\<lparr> flag := 0 \<rparr>)"
      using v assms(1,5) by (simp add: post_mode_def Let_def)
    have 3: "s2 = s1\<lparr> intervals := [Suc (fresh s)], manualTimer := Some (Suc (fresh s)),
           fresh := Suc (Suc (fresh s)) \<rparr>"
      using 1 2 switch_manual_twice [OF c, of cfg] by simp
    have 4: "manualTimer s1 = Some (fresh s)" "intervals s1 = [fresh s]"
      using 1 switch_manual_fields [OF c, of cfg] by simp_all
    show ?thesis using v 3 4 by simp
  qed
qed

theorem set_mode_twice_witness:
  "get_prop (flag_body 1) ''flag'' = Inr (JNum (Num 1)) \<and>
   snd (post_mode api_cfg (flag_body 1)
         (snd (post_mode api_cfg (flag_body 1)
           (run sample_Number api_cfg [Listening, PostMode (flag_body 0)] (initial api_cfg)))))
     = snd (post_mode api_cfg (flag_body 1)
           (run sample_Number api_cfg [Listening, PostMode (flag_body 0)] (initial api_cfg))) \<and>
   get_prop (flag_body 0) ''flag'' = Inr (JNum (Num 0)) \<and>
   manualTimer (snd (post_mode api_cfg (flag_body 0)
           (run sample_Number api_cfg [Listening] (initial api_cfg)))) = Some 1 \<and>
   manualTimer (snd (post_mode api_cfg (flag_body 0)
         (snd (post_mode api_cfg (flag_body 0)
           (run sample_Number api_cfg [Listening] (initial api_cfg)))))) = Some 2 \<and>
   intervals (snd (post_mode api_cfg (flag_body 0)
         (snd (post_mode api_cfg (flag_body 0)
           (run sample_Number api_cfg [Listening] (initial api_cfg)))))) = [2]"
  using
    set_mode_twice [of "flag_body 1" "JNum (Num 1)"
      "run sample_Number api_cfg [Listening, PostMode (flag_body 0)] (initial api_cfg)"
      sample_Number api_cfg "[Listening, PostMode (flag_body 0)]"
      "snd (post_mode api_cfg (flag_body 1)
           (run sample_Number api_cfg [Listening, PostMode (flag_body 0)] (initial api_cfg)))"
      "snd (post_mode api_cfg (flag_body 1)
         (snd (post_mode api_cfg (flag_body 1)
           (run sample_Number api_cfg [Listening, PostMode (flag_body 0)] (initial api_cfg)))))"]
    set_mode_twice [of "flag_body 0" "JNum (Num 0)"
      "run sample_Number api_cfg [Listening] (initial api_cfg)"
      sample_Number api_cfg "[Listening]"
      "snd (post_mode api_cfg (flag_body 0)
           (run sample_Number api_cfg [Listening] (initial api_cfg)))"
      "snd (post_mode api_cfg (flag_body 0)
         (snd (post_mode api_cfg (flag_body 0)
           (run sample_Number api_cfg [Listening] (initial api_cfg)))))"]
  by (simp add: relay_defs)

text \<open>
  C6 as stated fails: the step is not 10 on every price. With the price 1.12 taken from
  Delta (the double \<open>5044031582654956 / 2 ^ 52\<close>), MANUAL mode and direction \<open>"up"\<close>,
  a firing of the timer leaves the double \<open>6260003482044990 / 2 ^ 49\<close>, printed
  11.120000000000001, which is not the price plus 10. On the price \<open>10 ^ 17\<close> the same
  statement adds 16.
\<close>

theorem manual_step_rounds:
  "currentPrice fractional_price_state = Some (Num (5044031582654956 / 2 ^ 52)) \<and>
   flag fractional_price_state = 0 \<and>
   manualDirection fractional_price_state = ''up'' \<and>
   intervals fractional_price_state = [1] \<and>
   currentPrice (step sample_Number api_cfg (TimerFire 1) fractional_price_state)
     = Some (Num (6260003482044990 / 2 ^ 49)) \<and>
   (6260003482044990 / 2 ^ 49 :: real) \<noteq> 5044031582654956 / 2 ^ 52 + 10 \<and>
   currentPrice (manualTick (fractional_price_state
       \<lparr> currentPrice := Some (Num 100000000000000000) \<rparr>))
     = Some (Num 100000000000000016)"
proof -
  have r: "round_double 1.12 = 5044031582654956 / 2 ^ 52"
    by (simp add: round_eval)
  have a: "round_double (5044031582654956 / 2 ^ 52 + 10) = 6260003482044990 / 2 ^ 49"
    by (simp add: round_eval)
  have b: "round_double (100000000000000000 + 10) = 100000000000000016"
    by (simp add: round_eval)
  have s: "fractional_price_state =
      \<lparr> flag = 0, manualDirection = ''up'',
        currentPrice = Some (Num (5044031582654956 / 2 ^ 52)),
        manualTimer = Some 1, deltaWs = None, intervals = [1], feeds = [], fresh = 2,
        clients = [], sent = [] \<rparr>"
    unfolding fractional_price_state_def r by (simp add: relay_defs feed_defs)
  show ?thesis
    unfolding s using a b by (simp add: step_def manualTick_def)
qed

text \<open>
  C6, amended. \<open>startManualLoop\<close> sets an absent price to 100 and keeps a present one.
  A firing of the timer adds 10 with direction \<open>"up"\<close> and subtracts 10 with \<open>"down"\<close>
  in double arithmetic (the new price is the double nearest to the exact result) and
  changes nothing with \<open>"none"\<close>. On an integer price whose result stays below
  \<open>2 ^ 53\<close> in magnitude the step is exactly 10. Started in MANUAL mode with no price and
  direction \<open>"none"\<close>, the price is 100 after the first firing and, once the direction is
  set to \<open>"up"\<close>, 110 and 120 after the next two. A firing is the event \<open>TimerFire\<close>;
  its period of 1000 ms is outside the model.
\<close>

theorem manual_generator_steps:
  "currentPrice (startManualLoop s)
     = Some (case currentPrice s of None \<Rightarrow> Num 100 | Some p \<Rightarrow> p) \<and>
   currentPrice (manualTick (s\<lparr> currentPrice := Some (Num x), manualDirection := ''up'' \<rparr>))
     = Some (Num (round_double (x + 10))) \<and>
   currentPrice (manualTick (s\<lparr> currentPrice := Some (Num x), manualDirection := ''down'' \<rparr>))
     = Some (Num (round_double (x - 10))) \<and>
   manualTick (s\<lparr> manualDirection := ''none'' \<rparr>) = s\<lparr> manualDirection := ''none'' \<rparr> \<and>
   (\<bar>n\<bar> + 10 < 2 ^ 53 \<longrightarrow>
      currentPrice (manualTick
          (s\<lparr> currentPrice := Some (Num (of_int n)), manualDirection := ''up'' \<rparr>))
        = Some (Num (of_int (n + 10))) \<and>
      currentPrice (manualTick
          (s\<lparr> currentPrice := Some (Num (of_int n)), manualDirection := ''down'' \<rparr>))
        = Some (Num (of_int (n - 10)))) \<and>
   currentPrice (initial manual_cfg) = None \<and>
   flag (initial manual_cfg) = 0 \<and>
   manualDirection (initial manual_cfg) = ''none'' \<and>
   currentPrice (run N manual_cfg [Listening, TimerFire 0] (initial manual_cfg))
     = Some (Num 100) \<and>
   currentPrice (run N manual_cfg
       [Listening, TimerFire 0, PostManualDirection (direction_body ''up''), TimerFire 0]
       (initial manual_cfg))
     = Some (Num 110) \<and>
   currentPrice (run N manual_cfg
       [Listening, TimerFire 0, PostManualDirection (direction_body ''up''), TimerFire 0,
        TimerFire 0]
       (initial manual_cfg))
     = Some (Num 120)"
proof -
  have a: "currentPrice (startManualLoop s)
     = Some (case currentPrice s of None \<Rightarrow> Num 100 | Some p \<Rightarrow> p)"
    by (simp add: startManualLoop_def stopDeltaMode_def clearInterval_def defaultPrice_def
        clearOldTimer_def setInterval_def split: option.splits)
  have b: "currentPrice (manualTick (s\<lparr> currentPrice := Some (Num x), manualDirection := ''up'' \<rparr>))
     = Some (Num (round_double (x + 10)))"
    "currentPrice (manualTick (s\<lparr> currentPrice := Some (Num x), manualDirection := ''down'' \<rparr>))
     = Some (Num (round_double (x - 10)))"
    "manualTick (s\<lparr> manualDirection := ''none'' \<rparr>) = s\<lparr> manualDirection := ''none'' \<rparr>"
    by (simp_all add: manualTick_def)
  have i: "currentPrice (manualTick
          (s\<lparr> currentPrice := Some (Num (of_int n)), manualDirection := ''up'' \<rparr>))
        = Some (Num (of_int (n + 10)))"
     "currentPrice (manualTick
          (s\<lparr> currentPrice := Some (Num (of_int n)), manualDirection := ''down'' \<rparr>))
        = Some (Num (of_int (n - 10)))"
    if "\<bar>n\<bar> + 10 < 2 ^ 53"
  proof -
    have "\<bar>n + 10\<bar> < 2 ^ 53" "\<bar>n - 10\<bar> < 2 ^ 53" using that by simp_all
    then have "round_double (of_int (n + 10)) = of_int (n + 10)"
      "round_double (of_int (n - 10)) = of_int (n - 10)"
      by (simp_all only: round_double_of_int)
    then show "currentPrice (manualTick
          (s\<lparr> currentPrice := Some (Num (of_int n)), manualDirection := ''up'' \<rparr>))
        = Some (Num (of_int (n + 10)))"
     "currentPrice (manualTick
          (s\<lparr> currentPrice := Some (Num (of_int n)), manualDirection := ''down'' \<rparr>))
        = Some (Num (of_int (n - 10)))"
      by (simp_all add: manualTick_def)
  qed
  have c: "currentPrice (initial manual_cfg) = None" "flag (initial manual_cfg) = 0"
    "manualDirection (initial manual_cfg) = ''none''"
    by (simp_all add: initial_def manual_cfg_def)
  have d: "currentPrice (run N manual_cfg [Listening, TimerFire 0] (initial manual_cfg))
     = Some (Num 100)"
    by (simp add: relay_defs)
  have e: "currentPrice (run N manual_cfg
       [Listening, TimerFire 0, PostManualDirection (direction_body ''up''), TimerFire 0]
       (initial manual_cfg))
     = Some (Num 110)"
    by (simp add: relay_defs)
  have f: "currentPrice (run N manual_cfg
       [Listening, TimerFire 0, PostManualDirection (direction_body ''up''), TimerFire 0,
        TimerFire 0]
       (initial manual_cfg))
     = Some (Num 120)"
    by (simp add: relay_defs)
  show ?thesis using a b i c d e f by blast
qed

theorem manual_generator_steps_witness:
  "\<bar>100 :: int\<bar> + 10 < 2 ^ 53 \<and>
   currentPrice (manualTick
      ((initial manual_cfg)\<lparr> currentPrice := Some (Num 100), manualDirection := ''up'' \<rparr>))
     = Some (Num 110) \<and>
   currentPrice (manualTick
      ((initial manual_cfg)\<lparr> currentPrice := Some (Num 100), manualDirection := ''down'' \<rparr>))
     = Some (Num 90)"
  using manual_generator_steps [of "initial manual_cfg" 100 100 sample_Number]
  by simp

text \<open>
  C7. A \<open>POST /mode\<close> that is answered with status 200 leaves \<open>manualDirection\<close> at
  \<open>"none"\<close>, whatever the mode and the direction were before, and reports it.
\<close>

theorem set_mode_resets_direction:
  "post_mode cfg body s = (r, s') \<Longrightarrow> status r = 200 \<Longrightarrow>
     manualDirection s' = ''none'' \<and> r = ModeOk (flag s') ''none''"
  by (auto simp: post_mode_def Let_def switch_mode_direction split: sum.splits if_splits)

theorem set_mode_resets_direction_witness:
  "status (fst (post_mode manual_cfg (flag_body 1)
      ((initial manual_cfg)\<lparr> manualDirection := ''up'' \<rparr>))) = 200 \<and>
   manualDirection (snd (post_mode manual_cfg (flag_body 1)
      ((initial manual_cfg)\<lparr> manualDirection := ''up'' \<rparr>))) = ''none'' \<and>
   status (fst (post_mode manual_cfg (flag_body 0)
      ((initial manual_cfg)\<lparr> manualDirection := ''up'' \<rparr>))) = 200 \<and>
   manualDirection (snd (post_mode manual_cfg (flag_body 0)
      ((initial manual_cfg)\<lparr> manualDirection := ''up'' \<rparr>))) = ''none''"
  using
    set_mode_resets_direction [of manual_cfg "flag_body 1"
      "(initial manual_cfg)\<lparr> manualDirection := ''up'' \<rparr>"
      "fst (post_mode manual_cfg (flag_body 1) ((initial manual_cfg)\<lparr> manualDirection := ''up'' \<rparr>))"
      "snd (post_mode manual_cfg (flag_body 1) ((initial manual_cfg)\<lparr> manualDirection := ''up'' \<rparr>))"]
    set_mode_resets_direction [of manual_cfg "flag_body 0"
      "(initial manual_cfg)\<lparr> manualDirection := ''up'' \<rparr>"
      "fst (post_mode manual_cfg (flag_body 0) ((initial manual_cfg)\<lparr> manualDirection := ''up'' \<rparr>))"
      "snd (post_mode manual_cfg (flag_body 0) ((initial manual_cfg)\<lparr> manualDirection := ''up'' \<rparr>))"]
  by (simp add: relay_defs)

text \<open>
  C8. A \<open>flag\<close> other than the numbers 0 and 1, and a \<open>direction\<close> other than the
  strings \<open>"up"\<close>, \<open>"down"\<close> and \<open>"none"\<close>, is answered with status 400 and the state
  is returned as it was.
\<close>

theorem invalid_input_rejected:
  "(get_prop body ''flag'' = Inr v \<and> v \<noteq> JNum (Num 0) \<and> v \<noteq> JNum (Num 1) \<longrightarrow>
      post_mode cfg body s = (BadRequest ''flag must be 0 or 1'', s) \<and>
      status (fst (post_mode cfg body s)) = 400) \<and>
   (get_prop body ''direction'' = Inr d \<and>
      d \<noteq> JStr ''up'' \<and> d \<noteq> JStr ''down'' \<and> d \<noteq> JStr ''none'' \<longrightarrow>
      post_manual_direction body s = (BadRequest direction_error, s) \<and>
      status (fst (post_manual_direction body s)) = 400)"
  by (auto simp: post_mode_def post_manual_direction_def split: json.splits)

theorem invalid_input_rejected_witness:
  "get_prop (flag_body 2) ''flag'' = Inr (JNum (Num 2)) \<and>
   post_mode api_cfg (flag_body 2) (initial api_cfg)
     = (BadRequest ''flag must be 0 or 1'', initial api_cfg) \<and>
   get_prop (direction_body ''sideways'') ''direction'' = Inr (JStr ''sideways'') \<and>
   post_manual_direction (direction_body ''sideways'') (initial api_cfg)
     = (BadRequest direction_error, initial api_cfg)"
  using
    invalid_input_rejected [of "flag_body 2" "JNum (Num 2)" api_cfg "initial api_cfg" JNull]
    invalid_input_rejected [of "direction_body ''sideways''" JNull api_cfg "initial api_cfg"
      "JStr ''sideways''"]
  by (simp add: flag_body_def direction_body_def)

text \<open>
  C9. The Delta message callback calls \<open>onTick\<close> only for a message with a truthy
  symbol and a truthy computed price, and the tick carries both. A message with a falsy
  or missing symbol, a message whose \<open>mark_price\<close> and \<open>close\<close> are both falsy or
  missing, and a message whose computed price is falsy (0 or \<open>NaN\<close>) make the callback
  return without a tick and without an exception.
\<close>

theorem feed_emits_only_usable_ticks:
  "(on_message N now (Some msg) = Emit t \<longrightarrow>
      get_prop msg ''symbol'' = Inr (symbol t) \<and> truthy (symbol t) \<and>
      feed_price N msg = Inr (price t) \<and> num_truthy (price t) \<and> source t = ''delta'')
   \<and> (get_prop msg ''symbol'' = Inr sy \<and> \<not> truthy sy \<longrightarrow>
        message_body N now msg = Inr Ignore)
   \<and> (get_prop msg ''mark_price'' = Inr mp \<and> \<not> truthy mp \<and>
      get_prop msg ''close'' = Inr cl \<and> \<not> truthy cl \<longrightarrow>
        message_body N now msg = Inr Ignore)
   \<and> (feed_price N msg = Inr p \<and> \<not> num_truthy p \<longrightarrow>
        message_body N now msg = Inr Ignore)"
proof (intro conjI impI)
  assume "on_message N now (Some msg) = Emit t"
  then show "get_prop msg ''symbol'' = Inr (symbol t)" "truthy (symbol t)"
     "feed_price N msg = Inr (price t)" "num_truthy (price t)" "source t = ''delta''"
    by (auto simp: on_message_def message_body_def bindE_def split: sum.splits if_splits)
next
  assume "get_prop msg ''symbol'' = Inr sy \<and> \<not> truthy sy"
  then show "message_body N now msg = Inr Ignore"
    by (simp add: message_body_def bindE_def)
next
  assume a: "get_prop msg ''mark_price'' = Inr mp \<and> \<not> truthy mp \<and>
      get_prop msg ''close'' = Inr cl \<and> \<not> truthy cl"
  then obtain sy where "get_prop msg ''symbol'' = Inr sy" using get_prop_total by blast
  with a show "message_body N now msg = Inr Ignore"
    by (simp add: message_body_def bindE_def)
next
  assume a: "feed_price N msg = Inr p \<and> \<not> num_truthy p"
  then obtain mp where m: "get_prop msg ''mark_price'' = Inr mp"
    by (auto simp: feed_price_def bindE_def split: sum.splits)
  obtain sy where s: "get_prop msg ''symbol'' = Inr sy" using m get_prop_total by blast
  obtain cl where c: "get_prop msg ''close'' = Inr cl" using m get_prop_total by blast
  show "message_body N now msg = Inr Ignore" using a m s c
    by (simp add: message_body_def bindE_def)
qed

theorem feed_emits_only_usable_ticks_witness:
  "on_message sample_Number (Num 7) (Some (ticker (JStr ''BTCUSD'') (JStr ''50000.5'')))
     = Emit (delta_tick (Num 50000.5))
   \<and> truthy (symbol (delta_tick (Num 50000.5)))
   \<and> num_truthy (price (delta_tick (Num 50000.5)))
   \<and> get_prop (ticker JUndefined (JStr ''50000.5'')) ''symbol'' = Inr JUndefined
   \<and> message_body sample_Number (Num 7) (ticker JUndefined (JStr ''50000.5'')) = Inr Ignore
   \<and> get_prop (ticker (JStr ''BTCUSD'') (JNum (Num 0))) ''mark_price'' = Inr (JNum (Num 0))
   \<and> get_prop (ticker (JStr ''BTCUSD'') (JNum (Num 0))) ''close'' = Inr JUndefined
   \<and> message_body sample_Number (Num 7) (ticker (JStr ''BTCUSD'') (JNum (Num 0))) = Inr Ignore
   \<and> feed_price sample_Number (JObj [(''symbol'', JStr ''BTCUSD''), (''mark_price'', JStr ''0''), (''spot_price'', JNum (Num 0))]) = Inr (Num 0)
   \<and> message_body sample_Number (Num 7) (JObj [(''symbol'', JStr ''BTCUSD''), (''mark_price'', JStr ''0''), (''spot_price'', JNum (Num 0))]) = Inr Ignore"
  using
    feed_emits_only_usable_ticks [of sample_Number "Num 7"
      "ticker (JStr ''BTCUSD'') (JStr ''50000.5'')" "delta_tick (Num 50000.5)"
      JUndefined JUndefined JUndefined NaN]
    feed_emits_only_usable_ticks [of sample_Number "Num 7"
      "ticker JUndefined (JStr ''50000.5'')" "delta_tick (Num 50000.5)"
      JUndefined JUndefined JUndefined NaN]
    feed_emits_only_usable_ticks [of sample_Number "Num 7"
      "ticker (JStr ''BTCUSD'') (JNum (Num 0))" "delta_tick (Num 50000.5)"
      JUndefined "JNum (Num 0)" JUndefined NaN]
    feed_emits_only_usable_ticks [of sample_Number "Num 7"
      "JObj [(''symbol'', JStr ''BTCUSD''), (''mark_price'', JStr ''0''), (''spot_price'', JNum (Num 0))]" "delta_tick (Num 50000.5)"
      JUndefined JUndefined JUndefined "Num 0"]
  by (simp add: feed_defs)

text \<open>
  C10. When the Delta callback emits a tick, every client with an open channel is sent
  the same event, and no other client is sent anything; the event carries the source
  \<open>"delta"\<close> and the mode read from the flag at that moment, \<open>"MANUAL"\<close> when the flag
  is not 1.
\<close>

theorem broadcast_mode_is_current_mode:
  "on_message N now raw = Emit t \<Longrightarrow>
     sent (step N cfg (DeltaMessage raw now) s) =
       sent s @
       map (\<lambda>c. (cid c,
              TickMsg \<lparr> ev_type = ''tick'', ev_symbol = symbol t, ev_price = price t,
                        ev_time = time t, ev_source = ''delta'',
                        ev_mode = (if flag s = 1 then ''API'' else ''MANUAL'') \<rparr>))
           (open_clients s)"
proof -
  assume e: "on_message N now raw = Emit t"
  then obtain msg where "raw = Some msg"
    by (cases raw) (simp_all add: on_message_def)
  with e have "source t = ''delta''"
    by (auto simp: on_message_def message_body_def bindE_def split: sum.splits if_splits)
  with e show ?thesis
    by (simp add: step_def sent_handleDeltaTick tick_data_def mode_name_def)
qed

theorem broadcast_mode_is_current_mode_witness:
  "on_message sample_Number (Num 7) (Some (ticker (JStr ''BTCUSD'') (JStr ''50000.5'')))
     = Emit (delta_tick (Num 50000.5)) \<and>
   flag ((initial manual_cfg)\<lparr> clients :=
      [\<lparr> cid = 4, readyState = 1 \<rparr>, \<lparr> cid = 5, readyState = 2 \<rparr>,
       \<lparr> cid = 6, readyState = 1 \<rparr>] \<rparr>) = 0 \<and>
   sent (step sample_Number manual_cfg
          (DeltaMessage (Some (ticker (JStr ''BTCUSD'') (JStr ''50000.5''))) (Num 7))
          ((initial manual_cfg)\<lparr> clients :=
            [\<lparr> cid = 4, readyState = 1 \<rparr>, \<lparr> cid = 5, readyState = 2 \<rparr>,
             \<lparr> cid = 6, readyState = 1 \<rparr>] \<rparr>))
     = [(4, TickMsg \<lparr> ev_type = ''tick'', ev_symbol = JStr ''BTCUSD'',
                      ev_price = Num 50000.5, ev_time = JNum (Num 1700000000000),
                      ev_source = ''delta'', ev_mode = ''MANUAL'' \<rparr>),
        (6, TickMsg \<lparr> ev_type = ''tick'', ev_symbol = JStr ''BTCUSD'',
                      ev_price = Num 50000.5, ev_time = JNum (Num 1700000000000),
                      ev_source = ''delta'', ev_mode = ''MANUAL'' \<rparr>)]"
  using broadcast_mode_is_current_mode [of sample_Number "Num 7"
      "Some (ticker (JStr ''BTCUSD'') (JStr ''50000.5''))" "delta_tick (Num 50000.5)"
      manual_cfg
      "(initial manual_cfg)\<lparr> clients :=
            [\<lparr> cid = 4, readyState = 1 \<rparr>, \<lparr> cid = 5, readyState = 2 \<rparr>,
             \<lparr> cid = 6, readyState = 1 \<rparr>] \<rparr>"]
  by (simp add: relay_defs feed_defs open_clients_def)

end
